theory Spec2Isabelle
  imports Complex_Main
begin

section \<open>Values of the program\<close>

text \<open>
  The bot is one Python module, \<^verbatim>\<open>botlib.py\<close>. Its functions talk to the
  Telegram HTTP API, the filesystem, PostgreSQL, the clock and the asyncio scheduler, and
  they work on decoded JSON. The embedding makes each of these explicit:
  \<^item> decoded JSON (an update, an API answer) is a value of type \<open>json\<close>; a Python
    \<^verbatim>\<open>dict\<close> is an association list read with \<open>map_of\<close>;
  \<^item> a Python \<^verbatim>\<open>str\<close> is a \<open>string\<close>, one \<open>char\<close> per character (so only
    characters below 256 are in the model), and \<^verbatim>\<open>bytes\<close> is a \<open>string\<close> as well;
  \<^item> an exception is a value of type \<open>exn\<close>; every member is a subclass of Python's
    \<^verbatim>\<open>Exception\<close>, which is what each \<^verbatim>\<open>except Exception\<close> of the module catches
    (\<^verbatim>\<open>KeyboardInterrupt\<close> and \<^verbatim>\<open>SystemExit\<close> are not modelled);
  \<^item> a moment of time is a rational number of seconds (Python's floats, taken exactly).
\<close>

type_synonym bytes = string

datatype json =
    JNull
  | JBool bool
  | JInt int
  | JStr string
  | JList "json list"
  | JObj "(string \<times> json) list"

datatype exn =
    AttributeError
  | TypeError
  | ValueError string
  | Exception string
  | HTTPException nat string
  | EnvError string

text \<open>
  \<open>AttributeError\<close> and \<open>TypeError\<close> are what Python raises when the module calls
  \<^verbatim>\<open>.get\<close>, \<^verbatim>\<open>.keys\<close> or \<^verbatim>\<open>.strip\<close> on a value without that method, hashes
  a list, or hands a non-string to \<^verbatim>\<open>os.path.basename\<close>. \<open>Exception s\<close> is a
  \<^verbatim>\<open>raise Exception(...)\<close> of the module, \<open>HTTPException\<close> is FastAPI's, and
  \<open>EnvError\<close> stands for whatever \<^verbatim>\<open>requests\<close>, \<^verbatim>\<open>os\<close>, \<^verbatim>\<open>open\<close>,
  \<^verbatim>\<open>psycopg2\<close> or \<^verbatim>\<open>asyncio\<close> raise.
\<close>

text \<open>
  The texts the bot sends are Russian sentences; each is a constructor here, with the
  parts the source formats into it as arguments.
\<close>

datatype msg_text =
    NotRegisteredText
  | PhotoSavedText string
  | PhotoErrorText
  | VideoSavedText string
  | VideoErrorText
  | GreetingText
  | CacheListText nat "string list"
  | EchoText string

datatype label = HelpLabel | ViewMediaLabel

type_synonym keyboard = "(label \<times> string) list list"

datatype field = FJson json | FText msg_text | FStr string | FMarkup keyboard

type_synonym payload = "(string \<times> field) list"

datatype upload = UploadBytes string bytes | UploadFile string

type_synonym files = "(string \<times> upload) list"

datatype level = DEBUG | INFO | WARNING | ERROR

datatype logarg =
    AStr string
  | AStrs "string list"
  | AJson json
  | AText msg_text
  | ANat nat
  | AInt int
  | ABool bool
  | AExn exn

record db_row =
  row_user_id :: json
  row_file_id :: json
  row_media_type :: string
  row_file_name :: "string option"
  row_data :: bytes

text \<open>
  Every logger call and every call that leaves the process is an event, recorded with
  what the call was given and with what came back (the value, or the exception raised);
  the trace of a run is the list of its events, oldest first.
\<close>

datatype event =
    Log level string "logarg list"
  | HttpPost string payload files "exn + json"
  | HttpGet json "exn + bytes"
  | OpenRead string "exn option"
  | FileWrite string bytes "exn option"
  | DbInsert db_row "exn option"
  | CreateTask json "exn option"
  | ListDir string "exn option"
  | GetMTime string "exn option"
  | Remove string "exn option"

record cache_entry =
  entry_bytes :: bytes
  entry_user_id :: json
  entry_type :: string
  entry_filename :: string
  entry_ts :: string

record world =
  trace :: "event list"
  media_cache :: "(json \<times> cache_entry) list"
  log_files :: "(string \<times> rat) list"

text \<open>
  \<open>media_cache\<close> is the module's global dictionary, in insertion order. \<open>log_files\<close> is
  the content of \<^verbatim>\<open>LOG_DIR\<close>: each entry's name and modification time.

  The configuration read from the environment at import time, and the answers of the
  outside world, are the fields of \<open>env\<close>. An answer may depend on everything that
  happened before it, so each oracle takes the trace so far.
\<close>

record env =
  WEBHOOK_SECRET :: string
  DATABASE_URL :: string
  MEDIA_DIR :: string
  LOG_DIR :: string
  psycopg2_installed :: bool
  requests_post :: "event list \<Rightarrow> string \<Rightarrow> payload \<Rightarrow> files \<Rightarrow> exn + json"
  requests_get :: "event list \<Rightarrow> json \<Rightarrow> exn + bytes"
  open_rb :: "event list \<Rightarrow> string \<Rightarrow> exn option"
  write_file :: "event list \<Rightarrow> string \<Rightarrow> bytes \<Rightarrow> exn option"
  db_execute :: "event list \<Rightarrow> db_row \<Rightarrow> exn option"
  time_time :: "event list \<Rightarrow> rat"
  utcnow_iso :: "event list \<Rightarrow> string"
  create_task :: "event list \<Rightarrow> json \<Rightarrow> exn option"
  os_listdir :: "event list \<Rightarrow> string \<Rightarrow> exn option"
  os_getmtime :: "event list \<Rightarrow> string \<Rightarrow> exn option"
  os_remove :: "event list \<Rightarrow> string \<Rightarrow> exn option"

section \<open>Computations that may raise\<close>

type_synonym 'a io = "world \<Rightarrow> (exn + 'a) \<times> world"

definition ret :: "'a \<Rightarrow> 'a io" where
  "ret x = (\<lambda>w. (Inr x, w))"

definition raise :: "exn \<Rightarrow> 'a io" where
  "raise e = (\<lambda>w. (Inl e, w))"

definition lift :: "exn + 'a \<Rightarrow> 'a io" where
  "lift r = (\<lambda>w. (r, w))"

definition andthen :: "'a io \<Rightarrow> ('a \<Rightarrow> 'b io) \<Rightarrow> 'b io" where
  "andthen m f = (\<lambda>w. case m w of (Inl e, w') \<Rightarrow> (Inl e, w') | (Inr x, w') \<Rightarrow> f x w')"

definition try_except :: "'a io \<Rightarrow> (exn \<Rightarrow> 'a io) \<Rightarrow> 'a io" where
  "try_except m h = (\<lambda>w. case m w of (Inl e, w') \<Rightarrow> h e w' | (Inr x, w') \<Rightarrow> (Inr x, w'))"

definition emit :: "event \<Rightarrow> world \<Rightarrow> world" where
  "emit ev w = w\<lparr>trace := trace w @ [ev]\<rparr>"

definition logger :: "level \<Rightarrow> string \<Rightarrow> logarg list \<Rightarrow> unit io" where
  "logger l fmt args = (\<lambda>w. (Inr (), emit (Log l fmt args) w))"

text \<open>
  \<open>logger\<close> is a call of \<^verbatim>\<open>logger.debug\<close>, \<^verbatim>\<open>.info\<close>, \<^verbatim>\<open>.warning\<close>,
  \<^verbatim>\<open>.error\<close> or \<^verbatim>\<open>.exception\<close> (level \<open>ERROR\<close>): the call is recorded with its
  format string and arguments, and it does not raise (the \<^verbatim>\<open>logging\<close> package
  handles the errors of its handlers itself).
\<close>

section \<open>Python's dynamic operations\<close>

fun py_truthy :: "json \<Rightarrow> bool" where
  "py_truthy JNull = False"
| "py_truthy (JBool b) = b"
| "py_truthy (JInt i) = (i \<noteq> 0)"
| "py_truthy (JStr s) = (s \<noteq> [])"
| "py_truthy (JList xs) = (xs \<noteq> [])"
| "py_truthy (JObj kvs) = (kvs \<noteq> [])"

text \<open>\<^verbatim>\<open>x.get(k, d)\<close>: only a dict has the method.\<close>

fun py_get :: "json \<Rightarrow> string \<Rightarrow> json \<Rightarrow> exn + json" where
  "py_get (JObj kvs) k d = Inr (case map_of kvs k of Some v \<Rightarrow> v | None \<Rightarrow> d)"
| "py_get _ k d = Inl AttributeError"

text \<open>\<^verbatim>\<open>list(x.keys())\<close>.\<close>

fun py_keys :: "json \<Rightarrow> exn + string list" where
  "py_keys (JObj kvs) = Inr (map fst kvs)"
| "py_keys _ = Inl AttributeError"

text \<open>
  \<^verbatim>\<open>k in x\<close> for a string \<open>k\<close>: a key of a dict, an element of a list, a substring
  of a string; the other values are not containers.
\<close>

fun is_substring :: "string \<Rightarrow> string \<Rightarrow> bool" where
  "is_substring k [] = (k = [])"
| "is_substring k (c # s) = (take (length k) (c # s) = k \<or> is_substring k s)"

fun py_in :: "string \<Rightarrow> json \<Rightarrow> exn + bool" where
  "py_in k (JObj kvs) = Inr (k \<in> set (map fst kvs))"
| "py_in k (JList xs) = Inr (JStr k \<in> set xs)"
| "py_in k (JStr s) = Inr (is_substring k s)"
| "py_in k _ = Inl TypeError"

text \<open>\<^verbatim>\<open>x[k]\<close> for a string \<open>k\<close>, used by the source only after \<^verbatim>\<open>k in x\<close> on a dict.\<close>

fun py_item :: "json \<Rightarrow> string \<Rightarrow> exn + json" where
  "py_item (JObj kvs) k = (case map_of kvs k of Some v \<Rightarrow> Inr v | None \<Rightarrow> Inl (EnvError ''KeyError''))"
| "py_item _ k = Inl TypeError"

text \<open>\<^verbatim>\<open>xs[i]\<close> on a list: a negative index counts from the end.\<close>

definition py_index :: "'a list \<Rightarrow> int \<Rightarrow> exn + 'a" where
  "py_index xs i =
     (if 0 \<le> i \<and> i < int (length xs) then Inr (xs ! nat i)
      else if i < 0 \<and> - int (length xs) \<le> i then Inr (xs ! nat (int (length xs) + i))
      else Inl (EnvError ''IndexError''))"

definition starts_with :: "string \<Rightarrow> string \<Rightarrow> bool" where
  "starts_with p s = (take (length p) s = p)"

definition ends_with :: "string \<Rightarrow> string \<Rightarrow> bool" where
  "ends_with p s = (length p \<le> length s \<and> drop (length s - length p) s = p)"

definition str_replace :: "char \<Rightarrow> char \<Rightarrow> string \<Rightarrow> string" where
  "str_replace a b s = map (\<lambda>c. if c = a then b else c) s"

text \<open>The characters below 256 that \<^verbatim>\<open>str.strip()\<close> removes.\<close>

definition py_isspace :: "char \<Rightarrow> bool" where
  "py_isspace c =
     (let n = (of_char c :: nat)
      in (9 \<le> n \<and> n \<le> 13) \<or> (28 \<le> n \<and> n \<le> 32) \<or> n = 133 \<or> n = 160)"

definition str_strip :: "string \<Rightarrow> string" where
  "str_strip s = rev (dropWhile py_isspace (rev (dropWhile py_isspace s)))"

fun py_strip :: "json \<Rightarrow> exn + string" where
  "py_strip (JStr s) = Inr (str_strip s)"
| "py_strip _ = Inl AttributeError"

text \<open>\<^verbatim>\<open>posixpath.basename\<close> and \<^verbatim>\<open>posixpath.join\<close> of two parts.\<close>

definition os_path_basename :: "string \<Rightarrow> string" where
  "os_path_basename p = rev (takeWhile (\<lambda>c. c \<noteq> CHR ''/'') (rev p))"

fun py_basename :: "json \<Rightarrow> exn + string" where
  "py_basename (JStr p) = Inr (os_path_basename p)"
| "py_basename _ = Inl TypeError"

definition os_path_join :: "string \<Rightarrow> string \<Rightarrow> string" where
  "os_path_join a b =
     (if starts_with ''/'' b then b
      else if a = [] \<or> ends_with ''/'' a then a @ b
      else a @ ''/'' @ b)"

text \<open>\<^verbatim>\<open>str(n)\<close> for an integer, and \<^verbatim>\<open>int(x)\<close> for a float (towards zero).\<close>

definition digit_char :: "nat \<Rightarrow> char" where
  "digit_char d = ''0123456789'' ! d"

fun str_nat :: "nat \<Rightarrow> string" where
  "str_nat n = (if n < 10 then [digit_char n] else str_nat (n div 10) @ [digit_char (n mod 10)])"

declare str_nat.simps [simp del]

definition str_int :: "int \<Rightarrow> string" where
  "str_int i = (if i < 0 then CHR ''-'' # str_nat (nat (- i)) else str_nat (nat i))"

definition py_int :: "rat \<Rightarrow> int" where
  "py_int x = (if 0 \<le> x then \<lfloor>x\<rfloor> else \<lceil>x\<rceil>)"

text \<open>
  A dictionary key: \<^verbatim>\<open>hash\<close> raises on a list and on a dict, and \<^verbatim>\<open>True == 1\<close>,
  \<^verbatim>\<open>False == 0\<close> as keys.
\<close>

fun py_hashable :: "json \<Rightarrow> bool" where
  "py_hashable (JList xs) = False"
| "py_hashable (JObj kvs) = False"
| "py_hashable _ = True"

fun key_norm :: "json \<Rightarrow> json" where
  "key_norm (JBool b) = JInt (if b then 1 else 0)"
| "key_norm j = j"

fun dict_set :: "(json \<times> 'v) list \<Rightarrow> json \<Rightarrow> 'v \<Rightarrow> (json \<times> 'v) list" where
  "dict_set [] k v = [(k, v)]"
| "dict_set ((k', v') # kvs) k v =
     (if key_norm k' = key_norm k then (k', v) # kvs else (k', v') # dict_set kvs k v)"

section \<open>Calls that leave the process\<close>

text \<open>
  Each call asks its oracle at the current trace and records itself. \<open>http_post\<close> is
  \<^verbatim>\<open>requests.post\<close>, \<^verbatim>\<open>raise_for_status\<close> and \<^verbatim>\<open>resp.json()\<close> together;
  \<open>http_get\<close> is \<^verbatim>\<open>requests.get\<close>, \<^verbatim>\<open>raise_for_status\<close> and \<^verbatim>\<open>r.content\<close>;
  \<open>db_insert\<close> is the connect, execute and commit of \<^verbatim>\<open>save_media_to_db\<close>.
\<close>

definition of_error :: "exn option \<Rightarrow> exn + unit" where
  "of_error r = (case r of Some e \<Rightarrow> Inl e | None \<Rightarrow> Inr ())"

definition http_post :: "env \<Rightarrow> string \<Rightarrow> payload \<Rightarrow> files \<Rightarrow> json io" where
  "http_post env method data files =
     (\<lambda>w. let r = requests_post env (trace w) method data files
          in (r, emit (HttpPost method data files r) w))"

definition http_get :: "env \<Rightarrow> json \<Rightarrow> bytes io" where
  "http_get env file_path =
     (\<lambda>w. let r = requests_get env (trace w) file_path
          in (r, emit (HttpGet file_path r) w))"

definition open_read :: "env \<Rightarrow> string \<Rightarrow> unit io" where
  "open_read env path =
     (\<lambda>w. let r = open_rb env (trace w) path
          in (of_error r, emit (OpenRead path r) w))"

definition open_write :: "env \<Rightarrow> string \<Rightarrow> bytes \<Rightarrow> unit io" where
  "open_write env dest b =
     (\<lambda>w. let r = write_file env (trace w) dest b
          in (of_error r, emit (FileWrite dest b r) w))"

definition db_insert :: "env \<Rightarrow> db_row \<Rightarrow> unit io" where
  "db_insert env row =
     (\<lambda>w. let r = db_execute env (trace w) row
          in (of_error r, emit (DbInsert row r) w))"

definition schedule :: "env \<Rightarrow> json \<Rightarrow> unit io" where
  "schedule env payload_json =
     (\<lambda>w. let r = create_task env (trace w) payload_json
          in (of_error r, emit (CreateTask payload_json r) w))"

definition clock :: "env \<Rightarrow> rat io" where
  "clock env = (\<lambda>w. (Inr (time_time env (trace w)), w))"

definition utcnow :: "env \<Rightarrow> string io" where
  "utcnow env = (\<lambda>w. (Inr (utcnow_iso env (trace w)), w))"

text \<open>
  The three calls on \<^verbatim>\<open>LOG_DIR\<close>. Besides what the oracle raises,
  \<^verbatim>\<open>os.path.getmtime\<close> and \<^verbatim>\<open>os.remove\<close> raise on a name that is not in the
  directory, and a successful \<^verbatim>\<open>os.remove\<close> takes the entry out of it.
\<close>

definition listdir :: "env \<Rightarrow> string \<Rightarrow> string list io" where
  "listdir env dir =
     (\<lambda>w. let r = os_listdir env (trace w) dir
          in (case r of Some e \<Rightarrow> Inl e | None \<Rightarrow> Inr (map fst (log_files w)),
              emit (ListDir dir r) w))"

definition getmtime :: "env \<Rightarrow> string \<Rightarrow> string \<Rightarrow> rat io" where
  "getmtime env path fname =
     (\<lambda>w. let r = (case os_getmtime env (trace w) path of
                     Some e \<Rightarrow> Inl e
                   | None \<Rightarrow>
                       (case map_of (log_files w) fname of
                          None \<Rightarrow> Inl (EnvError ''FileNotFoundError'')
                        | Some t \<Rightarrow> Inr t))
          in (r, emit (GetMTime path (case r of Inl e \<Rightarrow> Some e | Inr t \<Rightarrow> None)) w))"

definition remove_file :: "env \<Rightarrow> string \<Rightarrow> string \<Rightarrow> unit io" where
  "remove_file env path fname =
     (\<lambda>w. let r = (case os_remove env (trace w) path of
                     Some e \<Rightarrow> Some e
                   | None \<Rightarrow>
                       (if fname \<in> set (map fst (log_files w)) then None
                        else Some (EnvError ''FileNotFoundError'')))
          in (of_error r,
              emit (Remove path r)
                (if r = None then w\<lparr>log_files := filter (\<lambda>(n, t). n \<noteq> fname) (log_files w)\<rparr> else w)))"

section \<open>Transport client\<close>

text \<open>\<^verbatim>\<open>_api_post\<close> (lines 90 to 104).\<close>

definition api_post :: "env \<Rightarrow> string \<Rightarrow> payload \<Rightarrow> files \<Rightarrow> json io" where
  "api_post env method data files =
     andthen (logger DEBUG ''Request to Telegram API %s with data keys=%s files=%s''
                [AStr method, AStrs (map fst data), AStrs (map fst files)]) (\<lambda>_.
     try_except
       (andthen (http_post env method data files) (\<lambda>j.
        andthen (lift (py_get j ''ok'' JNull)) (\<lambda>ok.
          if \<not> py_truthy ok then
            andthen (logger ERROR ''Telegram API responded not ok: %s'' [AJson j]) (\<lambda>_.
            raise (Exception ''Telegram API error''))
          else ret j)))
       (\<lambda>e. andthen (logger ERROR ''Error calling Telegram API %s: %s'' [AStr method, AExn e]) (\<lambda>_.
            raise e)))"

text \<open>\<^verbatim>\<open>send_message\<close> (lines 126 to 143).\<close>

definition send_message :: "env \<Rightarrow> json \<Rightarrow> msg_text \<Rightarrow> keyboard option \<Rightarrow> string option \<Rightarrow> json io" where
  "send_message env chat_id txt reply_markup parse_mode =
     (let payload0 = [(''chat_id'', FJson chat_id), (''text'', FText txt)];
          payload1 = (case reply_markup of
                        Some kb \<Rightarrow> payload0 @ [(''reply_markup'', FMarkup kb)]
                      | None \<Rightarrow> payload0);
          payload2 = (case parse_mode of
                        Some pm \<Rightarrow> if pm \<noteq> [] then payload1 @ [(''parse_mode'', FStr pm)] else payload1
                      | None \<Rightarrow> payload1)
      in andthen (logger INFO ''send_message chat=%s text=%s'' [AJson chat_id, AText txt]) (\<lambda>_.
         api_post env ''sendMessage'' payload2 []))"

definition with_caption :: "payload \<Rightarrow> string option \<Rightarrow> payload" where
  "with_caption data caption =
     (case caption of
        Some c \<Rightarrow> if c \<noteq> [] then data @ [(''caption'', FStr c)] else data
      | None \<Rightarrow> data)"

definition str_truthy :: "string option \<Rightarrow> bool" where
  "str_truthy s = (case s of Some x \<Rightarrow> x \<noteq> [] | None \<Rightarrow> False)"

text \<open>
  \<^verbatim>\<open>send_photo\<close> (lines 146 to 168) and \<^verbatim>\<open>send_video\<close> (lines 171 to 192). In the
  second branch the file is opened first, and \<open>UploadFile path\<close> is the open file handed
  to \<^verbatim>\<open>requests\<close>.
\<close>

definition send_photo :: "env \<Rightarrow> json \<Rightarrow> string option \<Rightarrow> bytes option \<Rightarrow> string option \<Rightarrow> json io" where
  "send_photo env chat_id photo_path photo_bytes caption =
     (case photo_bytes of
        Some b \<Rightarrow>
          (let files = [(''photo'', UploadBytes ''photo.jpg'' b)];
               data = with_caption [(''chat_id'', FJson chat_id)] caption
           in andthen (logger INFO ''send_photo chat=%s bytes_size=%s'' [AJson chat_id, ANat (length b)]) (\<lambda>_.
              api_post env ''sendPhoto'' data files))
      | None \<Rightarrow>
          (if str_truthy photo_path then
             andthen (open_read env (the photo_path)) (\<lambda>_.
               (let files = [(''photo'', UploadFile (the photo_path))];
                    data = with_caption [(''chat_id'', FJson chat_id)] caption
                in andthen (logger INFO ''send_photo chat=%s file=%s'' [AJson chat_id, AStr (the photo_path)]) (\<lambda>_.
                   api_post env ''sendPhoto'' data files)))
           else raise (ValueError ''Either photo_path or photo_bytes must be provided'')))"

definition send_video :: "env \<Rightarrow> json \<Rightarrow> string option \<Rightarrow> bytes option \<Rightarrow> string option \<Rightarrow> json io" where
  "send_video env chat_id video_path video_bytes caption =
     (case video_bytes of
        Some b \<Rightarrow>
          (let files = [(''video'', UploadBytes ''video.mp4'' b)];
               data = with_caption [(''chat_id'', FJson chat_id)] caption
           in andthen (logger INFO ''send_video chat=%s bytes_size=%s'' [AJson chat_id, ANat (length b)]) (\<lambda>_.
              api_post env ''sendVideo'' data files))
      | None \<Rightarrow>
          (if str_truthy video_path then
             andthen (open_read env (the video_path)) (\<lambda>_.
               (let files = [(''video'', UploadFile (the video_path))];
                    data = with_caption [(''chat_id'', FJson chat_id)] caption
                in andthen (logger INFO ''send_video chat=%s file=%s'' [AJson chat_id, AStr (the video_path)]) (\<lambda>_.
                   api_post env ''sendVideo'' data files)))
           else raise (ValueError ''Either video_path or video_bytes must be provided'')))"

text \<open>\<^verbatim>\<open>get_file_path\<close> (lines 195 to 206) and \<^verbatim>\<open>download_file_by_path\<close> (209 to 218).\<close>

definition get_file_path :: "env \<Rightarrow> json \<Rightarrow> json io" where
  "get_file_path env file_id =
     andthen (logger DEBUG ''get_file_path for %s'' [AJson file_id]) (\<lambda>_.
     andthen (api_post env ''getFile'' [(''file_id'', FJson file_id)] []) (\<lambda>resp.
     andthen (lift (py_get resp ''result'' (JObj []))) (\<lambda>result.
     andthen (lift (py_get result ''file_path'' JNull)) (\<lambda>file_path.
       if \<not> py_truthy file_path then raise (Exception ''getFile did not return file_path'')
       else ret file_path))))"

definition download_file_by_path :: "env \<Rightarrow> json \<Rightarrow> bytes io" where
  "download_file_by_path env file_path =
     andthen (logger DEBUG ''Downloading file from %s'' [AJson file_path]) (\<lambda>_.
     http_get env file_path)"

section \<open>Media sinks\<close>

text \<open>
  The cache write of lines 352 and 377, \<^verbatim>\<open>media_cache[file_id] = {...}\<close>: the key is
  hashed first.
\<close>

definition cache_store :: "json \<Rightarrow> cache_entry \<Rightarrow> unit io" where
  "cache_store file_id entry =
     (\<lambda>w. if py_hashable file_id
           then (Inr (), w\<lparr>media_cache := dict_set (media_cache w) file_id entry\<rparr>)
           else (Inl TypeError, w))"

text \<open>\<^verbatim>\<open>save_media_to_fs\<close> (lines 225 to 235).\<close>

definition safe_name :: "string \<Rightarrow> string" where
  "safe_name filename = str_replace (CHR 0x5C) (CHR ''_'') (str_replace (CHR ''/'') (CHR ''_'') filename)"

definition stamped_name :: "rat \<Rightarrow> string \<Rightarrow> string" where
  "stamped_name t filename = str_int (py_int t) @ ''_'' @ safe_name filename"

definition save_media_to_fs :: "env \<Rightarrow> bytes \<Rightarrow> string \<Rightarrow> string io" where
  "save_media_to_fs env file_bytes filename =
     andthen (clock env) (\<lambda>t.
       (let dest = os_path_join (MEDIA_DIR env) (stamped_name t filename)
        in andthen (open_write env dest file_bytes) (\<lambda>_.
           andthen (logger INFO ''Saved media to filesystem: %s (size=%d)'' [AStr dest, ANat (length file_bytes)]) (\<lambda>_.
           ret dest))))"

text \<open>\<^verbatim>\<open>save_media_to_db\<close> (lines 238 to 275).\<close>

definition save_media_to_db :: "env \<Rightarrow> bytes \<Rightarrow> json \<Rightarrow> json \<Rightarrow> string \<Rightarrow> string option \<Rightarrow> bool io" where
  "save_media_to_db env file_bytes user_id file_id media_type file_name =
     (if DATABASE_URL env = [] then
        andthen (logger WARNING ''DATABASE_URL not set, skipping DB save'' []) (\<lambda>_. ret False)
      else if \<not> psycopg2_installed env then
        andthen (logger WARNING ''psycopg2 not installed, skipping DB save'' []) (\<lambda>_. ret False)
      else
        try_except
          (andthen (db_insert env \<lparr>row_user_id = user_id, row_file_id = file_id, row_media_type = media_type,
                                   row_file_name = file_name, row_data = file_bytes\<rparr>) (\<lambda>_.
           andthen (logger INFO ''Saved media to DB user=%s file_id=%s type=%s''
                      [AJson user_id, AJson file_id, AStr media_type]) (\<lambda>_.
           ret True)))
          (\<lambda>e. andthen (logger ERROR ''Failed to save media to DB: %s'' [AExn e]) (\<lambda>_. ret False)))"

text \<open>\<^verbatim>\<open>user_exists\<close> (lines 282 to 300), a placeholder that lets everyone in.\<close>

definition user_exists :: "json \<Rightarrow> bool io" where
  "user_exists user_id =
     andthen (logger DEBUG ''user_exists placeholder called for user=%s'' [AJson user_id]) (\<lambda>_. ret True)"

section \<open>Update dispatcher\<close>

text \<open>
  \<^verbatim>\<open>process_update\<close> (lines 307 to 411) is given in pieces. \<open>store_media\<close> is the body
  of the inner \<^verbatim>\<open>try\<close>, which the source writes twice (lines 349 to 364 for a photo,
  374 to 386 for a video) with the type tag and the acknowledgment text as the only
  differences.
\<close>

definition store_media ::
  "env \<Rightarrow> string \<Rightarrow> (string \<Rightarrow> msg_text) \<Rightarrow> json \<Rightarrow> json \<Rightarrow> json \<Rightarrow> unit io" where
  "store_media env media_type saved_text user_id chat_id file_id =
     andthen (get_file_path env file_id) (\<lambda>file_path.
     andthen (download_file_by_path env file_path) (\<lambda>file_bytes.
     andthen (lift (py_basename file_path)) (\<lambda>filename.
     andthen (utcnow env) (\<lambda>ts.
     andthen (cache_store file_id \<lparr>entry_bytes = file_bytes, entry_user_id = user_id,
                entry_type = media_type, entry_filename = filename, entry_ts = ts\<rparr>) (\<lambda>_.
     andthen (save_media_to_fs env file_bytes filename) (\<lambda>fs_path.
     andthen (save_media_to_db env file_bytes user_id file_id media_type (Some filename)) (\<lambda>_.
     andthen (send_message env chat_id (saved_text (os_path_basename fs_path)) None None) (\<lambda>_.
     ret ()))))))))"

text \<open>Lines 341 to 367.\<close>

definition handle_photo :: "env \<Rightarrow> json \<Rightarrow> json \<Rightarrow> json \<Rightarrow> unit io" where
  "handle_photo env message user_id chat_id =
     andthen (lift (py_in ''photo'' message)) (\<lambda>has_photo.
       if has_photo then
         andthen (lift (py_item message ''photo'')) (\<lambda>photos.
           case photos of
             JList ps \<Rightarrow>
               if ps \<noteq> [] then
                 andthen (lift (py_index ps (- 1))) (\<lambda>largest.
                 andthen (lift (py_get largest ''file_id'' JNull)) (\<lambda>file_id.
                 andthen (logger INFO ''Incoming photo file_id=%s from user=%s'' [AJson file_id, AJson user_id]) (\<lambda>_.
                 try_except (store_media env ''photo'' PhotoSavedText user_id chat_id file_id)
                   (\<lambda>e. andthen (logger ERROR ''Error processing photo: %s'' [AExn e]) (\<lambda>_.
                        andthen (send_message env chat_id PhotoErrorText None None) (\<lambda>_.
                        ret ()))))))
               else ret ()
           | _ \<Rightarrow> ret ())
       else ret ())"

text \<open>Lines 369 to 389.\<close>

definition handle_video :: "env \<Rightarrow> json \<Rightarrow> json \<Rightarrow> json \<Rightarrow> unit io" where
  "handle_video env message user_id chat_id =
     andthen (lift (py_in ''video'' message)) (\<lambda>has_video.
       if has_video then
         andthen (lift (py_item message ''video'')) (\<lambda>video.
         andthen (lift (py_get video ''file_id'' JNull)) (\<lambda>file_id.
         andthen (logger INFO ''Incoming video file_id=%s from user=%s'' [AJson file_id, AJson user_id]) (\<lambda>_.
         try_except (store_media env ''video'' VideoSavedText user_id chat_id file_id)
           (\<lambda>e. andthen (logger ERROR ''Error processing video: %s'' [AExn e]) (\<lambda>_.
                andthen (send_message env chat_id VideoErrorText None None) (\<lambda>_.
                ret ()))))))
       else ret ())"

text \<open>
  Lines 391 to 409. \<^verbatim>\<open>"\n".join(keys)\<close> raises on a key that is not a string, and
  the arguments of \<^verbatim>\<open>send_message\<close> are computed before the call.
\<close>

definition start_keyboard :: keyboard where
  "start_keyboard = [[(HelpLabel, ''help'')], [(ViewMediaLabel, ''list_cache'')]]"

fun str_of :: "json \<Rightarrow> exn + string" where
  "str_of (JStr s) = Inr s"
| "str_of _ = Inl TypeError"

fun join_keys :: "json list \<Rightarrow> exn + string list" where
  "join_keys [] = Inr []"
| "join_keys (k # ks) =
     (case str_of k of
        Inl e \<Rightarrow> Inl e
      | Inr s \<Rightarrow> (case join_keys ks of Inl e \<Rightarrow> Inl e | Inr ss \<Rightarrow> Inr (s # ss)))"

definition cache_keys :: "json list io" where
  "cache_keys = (\<lambda>w. (Inr (map fst (media_cache w)), w))"

definition handle_text :: "env \<Rightarrow> json \<Rightarrow> json \<Rightarrow> json \<Rightarrow> unit io" where
  "handle_text env message user_id chat_id =
     andthen (lift (py_in ''text'' message)) (\<lambda>has_text.
       if has_text then
         andthen (lift (py_item message ''text'')) (\<lambda>raw.
         andthen (lift (py_strip raw)) (\<lambda>txt.
         andthen (logger INFO ''Text message from %s: %s'' [AJson user_id, AStr (take 80 txt)]) (\<lambda>_.
           if starts_with ''/start'' txt then
             andthen (send_message env chat_id GreetingText (Some start_keyboard) None) (\<lambda>_. ret ())
           else if starts_with ''/list_cache'' txt then
             andthen cache_keys (\<lambda>keys.
             andthen (lift (join_keys keys)) (\<lambda>names.
             andthen (send_message env chat_id (CacheListText (length keys) names) None None) (\<lambda>_.
             ret ())))
           else
             andthen (send_message env chat_id (EchoText txt) None None) (\<lambda>_. ret ()))))
       else ret ())"

text \<open>Lines 316 to 323: no message and no edited message.\<close>

definition handle_callback :: "json \<Rightarrow> unit io" where
  "handle_callback update =
     andthen (lift (py_in ''callback_query'' update)) (\<lambda>has_cb.
       if has_cb then
         andthen (lift (py_item update ''callback_query'')) (\<lambda>cb.
         andthen (lift (py_get cb ''from'' (JObj []))) (\<lambda>sender.
         andthen (lift (py_get sender ''id'' JNull)) (\<lambda>sender_id.
         andthen (lift (py_get cb ''data'' JNull)) (\<lambda>cb_data.
         logger INFO ''Received callback_query from user %s data=%s'' [AJson sender_id, AJson cb_data]))))
       else ret ())"

text \<open>Lines 315 to 409, the body of the outer \<^verbatim>\<open>try\<close>.\<close>

definition dispatch :: "env \<Rightarrow> json \<Rightarrow> unit io" where
  "dispatch env update =
     andthen (lift (py_get update ''message'' JNull)) (\<lambda>m.
     andthen (if py_truthy m then ret m else lift (py_get update ''edited_message'' JNull)) (\<lambda>message.
       if message = JNull then handle_callback update
       else
         andthen (lift (py_get message ''from'' (JObj []))) (\<lambda>user.
         andthen (lift (py_get user ''id'' JNull)) (\<lambda>user_id.
         andthen (lift (py_get message ''chat'' (JObj []))) (\<lambda>chat.
         andthen (lift (py_get chat ''id'' JNull)) (\<lambda>chat_id.
         andthen (user_exists user_id) (\<lambda>known.
           if \<not> known then
             andthen (logger WARNING ''User %s not found in DB (placeholder). Ignoring message.'' [AJson user_id]) (\<lambda>_.
             try_except
               (andthen (send_message env chat_id NotRegisteredText None None) (\<lambda>_. ret ()))
               (\<lambda>e. ret ()))
           else
             andthen (handle_photo env message user_id chat_id) (\<lambda>_.
             andthen (handle_video env message user_id chat_id) (\<lambda>_.
             handle_text env message user_id chat_id)))))))))"

text \<open>\<^verbatim>\<open>process_update\<close>: line 312 stands before the \<^verbatim>\<open>try\<close>, lines 410 and 411 after it.\<close>

definition process_update :: "env \<Rightarrow> json \<Rightarrow> unit io" where
  "process_update env update =
     andthen (lift (py_keys update)) (\<lambda>keys.
     andthen (logger INFO ''Processing update keys=%s'' [AStrs keys]) (\<lambda>_.
     try_except (dispatch env update)
       (\<lambda>e. logger ERROR ''Unhandled exception in process_update: %s'' [AExn e])))"

section \<open>Webhook endpoint\<close>

text \<open>
  \<^verbatim>\<open>webhook_endpoint\<close> (lines 418 to 451). The request is given by the path segment,
  the secret header (\<open>None\<close> when the request has none) and what
  \<^verbatim>\<open>await request.json()\<close> does with the body: the decoded value, or the exception it
  raises when the body is not JSON. \<open>schedule\<close> is
  \<^verbatim>\<open>asyncio.create_task(asyncio.to_thread(process_update, payload))\<close>: when it succeeds
  the dispatcher runs later on a worker thread, outside this call.
\<close>

datatype response = JSONResponse nat json

definition check_secret :: "env \<Rightarrow> string \<Rightarrow> string option \<Rightarrow> unit io" where
  "check_secret env secret_path header_token =
     (if WEBHOOK_SECRET env \<noteq> [] then
        (if str_truthy header_token then
           (if the header_token \<noteq> WEBHOOK_SECRET env then
              andthen (logger WARNING ''Webhook secret header mismatch. Provided=%s'' [AStr (the header_token)]) (\<lambda>_.
              raise (HTTPException 403 ''Invalid webhook secret header''))
            else ret ())
         else
           (if secret_path \<noteq> WEBHOOK_SECRET env \<and> WEBHOOK_SECRET env \<noteq> [] then
              andthen (logger WARNING ''Webhook secret path mismatch. path=%s expected=%s''
                         [AStr secret_path, AStr (WEBHOOK_SECRET env)]) (\<lambda>_.
              raise (HTTPException 403 ''Invalid webhook path secret''))
            else ret ()))
      else ret ())"

definition webhook_endpoint :: "env \<Rightarrow> exn + json \<Rightarrow> string \<Rightarrow> string option \<Rightarrow> response io" where
  "webhook_endpoint env request_json secret_path header_token =
     andthen (check_secret env secret_path header_token) (\<lambda>_.
     andthen (try_except (lift request_json)
                (\<lambda>e. andthen (logger ERROR ''Failed to parse webhook JSON: %s'' [AExn e]) (\<lambda>_.
                     raise (HTTPException 400 ''invalid json'')))) (\<lambda>payload_json.
     andthen (try_except (schedule env payload_json) (\<lambda>e. process_update env payload_json)) (\<lambda>_.
     ret (JSONResponse 200 (JObj [(''ok'', JBool True)])))))"

text \<open>
  The status the client sees: FastAPI answers an \<^verbatim>\<open>HTTPException\<close> with its status
  code and any other exception that leaves the endpoint with 500.
\<close>

fun http_status :: "exn + response \<Rightarrow> nat" where
  "http_status (Inr (JSONResponse code body)) = code"
| "http_status (Inl (HTTPException code detail)) = code"
| "http_status (Inl e) = 500"

section \<open>Retention cleanup\<close>

text \<open>
  \<^verbatim>\<open>_remove_old_logs\<close> (lines 457 to 479). \<open>remove_loop\<close> is its \<^verbatim>\<open>for\<close> loop over
  the names \<^verbatim>\<open>os.listdir\<close> returned, with the list \<^verbatim>\<open>removed\<close> as accumulator.
\<close>

definition is_log_name :: "string \<Rightarrow> bool" where
  "is_log_name fname = (ends_with ''.log'' fname \<or> starts_with ''bot.log'' fname)"

fun remove_loop :: "env \<Rightarrow> rat \<Rightarrow> string list \<Rightarrow> string list \<Rightarrow> string list io" where
  "remove_loop env cutoff [] removed = ret removed"
| "remove_loop env cutoff (fname # rest) removed =
     (if \<not> ends_with ''.log'' fname \<and> \<not> starts_with ''bot.log'' fname then
        remove_loop env cutoff rest removed
      else
        (let path = os_path_join (LOG_DIR env) fname
         in andthen
              (try_except
                 (andthen (getmtime env path fname) (\<lambda>mtime.
                    if mtime < cutoff then
                      andthen (remove_file env path fname) (\<lambda>_. ret (removed @ [path]))
                    else ret removed))
                 (\<lambda>e. andthen (logger ERROR ''Error while removing log file %s: %s'' [AStr path, AExn e]) (\<lambda>_.
                      ret removed)))
              (\<lambda>removed'. remove_loop env cutoff rest removed')))"

definition remove_old_logs :: "env \<Rightarrow> int \<Rightarrow> unit io" where
  "remove_old_logs env older_than_days =
     andthen (clock env) (\<lambda>now.
       (let cutoff = now - of_int (older_than_days * 24 * 3600)
        in andthen (listdir env (LOG_DIR env)) (\<lambda>names.
           andthen (remove_loop env cutoff names []) (\<lambda>removed.
             if removed \<noteq> [] then
               logger INFO ''Removed %d old log files: %s'' [ANat (length removed), AStrs removed]
             else logger INFO ''No old log files to remove'' []))))"

text \<open>The default of the parameter \<^verbatim>\<open>older_than_days\<close> (line 457).\<close>

definition older_than_days_default :: int where
  "older_than_days_default = 35"

text \<open>
  Lines 501 to 504 of \<^verbatim>\<open>monthly_cleanup_loop\<close>: what the loop does each time its sleep
  ends. The sleep itself and the date arithmetic before it are not modelled.
\<close>

definition monthly_cleanup :: "env \<Rightarrow> unit io" where
  "monthly_cleanup env =
     try_except (remove_old_logs env 31)
       (\<lambda>e. logger ERROR ''Error during monthly cleanup: %s'' [AExn e])"

section \<open>Observing a run\<close>

text \<open>
  The claims are about what a run does to the outside world. \<open>new_events w w'\<close> is what
  a run from \<open>w\<close> to \<open>w'\<close> appended to the trace, \<open>calls\<close> keeps the events that are
  not log records, and \<open>run_calls m w\<close> is the list of outside calls the computation
  \<open>m\<close> makes when started in \<open>w\<close>, in order, each with what came back.
\<close>

fun is_log :: "event \<Rightarrow> bool" where
  "is_log (Log l fmt args) = True"
| "is_log _ = False"

definition calls :: "event list \<Rightarrow> event list" where
  "calls evs = filter (\<lambda>ev. \<not> is_log ev) evs"

definition new_events :: "world \<Rightarrow> world \<Rightarrow> event list" where
  "new_events w w' = drop (length (trace w)) (trace w')"

definition run_calls :: "'a io \<Rightarrow> world \<Rightarrow> event list" where
  "run_calls m w = calls (new_events w (snd (m w)))"

text \<open>
  \<open>spec m Q\<close>: every run of \<open>m\<close>, from any state, only appends to the trace, and its
  result and its outside calls satisfy \<open>Q\<close>.
\<close>

definition spec :: "'a io \<Rightarrow> (exn + 'a \<Rightarrow> event list \<Rightarrow> bool) \<Rightarrow> bool" where
  "spec m Q = (\<forall>w. \<exists>evs. trace (snd (m w)) = trace w @ evs \<and> Q (fst (m w)) (calls evs))"

text \<open>A \<^verbatim>\<open>sendMessage\<close> request with a chat and a text only, as \<open>send_message\<close> builds it.\<close>

definition send_call :: "json \<Rightarrow> msg_text \<Rightarrow> exn + json \<Rightarrow> event" where
  "send_call chat_id txt answer =
     HttpPost ''sendMessage'' [(''chat_id'', FJson chat_id), (''text'', FText txt)] [] answer"

text \<open>The file identifiers a list of calls asks \<^verbatim>\<open>getFile\<close> to resolve.\<close>

fun resolved :: "event \<Rightarrow> json list" where
  "resolved (HttpPost m d f r) =
     (if m = ''getFile'' then (case map_of d ''file_id'' of Some (FJson fid) \<Rightarrow> [fid] | _ \<Rightarrow> []) else [])"
| "resolved _ = []"

definition resolved_ids :: "event list \<Rightarrow> json list" where
  "resolved_ids cs = concat (map resolved cs)"

text \<open>
  \<open>direct_child dir dest\<close>: the path \<open>dest\<close> is \<open>dir\<close> joined with one file name, and that
  name has no separator in it and is neither empty nor a dot name.
\<close>

definition direct_child :: "string \<Rightarrow> string \<Rightarrow> bool" where
  "direct_child dir dest =
     (let name = os_path_basename dest
      in name \<noteq> [] \<and> name \<noteq> ''.'' \<and> name \<noteq> ''..'' \<and> CHR 0x5C \<notin> set name \<and> CHR ''/'' \<notin> set name \<and>
         dest = (if dir = [] \<or> ends_with ''/'' dir then dir @ name else dir @ ''/'' @ name))"

section \<open>Concrete inputs\<close>

text \<open>
  The environments, updates and states at which the theorems below are instantiated. In
  \<open>env_ok\<close> every outside call succeeds; the others differ from it in one answer.
\<close>

definition world0 :: world where
  "world0 = \<lparr>trace = [], media_cache = [], log_files = []\<rparr>"

definition ok_answer :: json where
  "ok_answer = JObj [(''ok'', JBool True), (''result'', JObj [(''file_path'', JStr ''photos/file_1.jpg'')])]"

definition env_ok :: env where
  "env_ok = \<lparr>WEBHOOK_SECRET = ''s3cret'', DATABASE_URL = ''postgresql://bot@db/media'',
     MEDIA_DIR = ''./media'', LOG_DIR = ''./logs'', psycopg2_installed = True,
     requests_post = (\<lambda>t m d f. Inr ok_answer),
     requests_get = (\<lambda>t p. Inr ''JPEG''),
     open_rb = (\<lambda>t p. None),
     write_file = (\<lambda>t d b. None),
     db_execute = (\<lambda>t r. None),
     time_time = (\<lambda>t. 1700000000),
     utcnow_iso = (\<lambda>t. ''2023-11-14T22:13:20''),
     create_task = (\<lambda>t p. None),
     os_listdir = (\<lambda>t d. None),
     os_getmtime = (\<lambda>t p. None),
     os_remove = (\<lambda>t p. None)\<rparr>"

definition env_fs_fail :: env where
  "env_fs_fail = env_ok\<lparr>write_file := (\<lambda>t d b. Some (EnvError ''OSError''))\<rparr>"

definition env_db_fail :: env where
  "env_db_fail = env_ok\<lparr>db_execute := (\<lambda>t r. Some (EnvError ''OperationalError''))\<rparr>"

definition env_no_db :: env where
  "env_no_db = env_ok\<lparr>DATABASE_URL := []\<rparr>"

definition env_down :: env where
  "env_down = env_ok\<lparr>requests_post := (\<lambda>t m d f. Inl (EnvError ''ConnectionError''))\<rparr>"

definition env_no_loop :: env where
  "env_no_loop = env_ok\<lparr>create_task := (\<lambda>t p. Some (EnvError ''RuntimeError''))\<rparr>"

definition env_open :: env where
  "env_open = env_ok\<lparr>WEBHOOK_SECRET := []\<rparr>"

definition photo_message :: json where
  "photo_message = JObj [(''from'', JObj [(''id'', JInt 7)]), (''chat'', JObj [(''id'', JInt 42)]),
     (''photo'', JList [JObj [(''file_id'', JStr ''small'')], JObj [(''file_id'', JStr ''large'')]])]"

definition photo_update :: json where
  "photo_update = JObj [(''update_id'', JInt 1), (''message'', photo_message)]"

definition photo_text_update :: json where
  "photo_text_update = JObj [(''update_id'', JInt 2), (''message'',
     JObj [(''from'', JObj [(''id'', JInt 7)]), (''chat'', JObj [(''id'', JInt 42)]),
       (''photo'', JList [JObj [(''file_id'', JStr ''large'')]]), (''text'', JStr ''/start'')])]"

definition video_message :: json where
  "video_message = JObj [(''from'', JObj [(''id'', JInt 7)]), (''chat'', JObj [(''id'', JInt 42)]),
     (''video'', JObj [(''file_id'', JStr ''clip'')])]"

text \<open>
  A log directory with files aged 10, 40 and 400 days when the clock of \<open>env_ok\<close> is
  read, and one with a single file aged 33 days.
\<close>

definition logs_world :: world where
  "logs_world = \<lparr>trace = [], media_cache = [],
     log_files = [(''bot.log.2023-11-04'', 1700000000 - 10 * 86400),
                  (''bot.log.2023-10-05'', 1700000000 - 40 * 86400),
                  (''old.log'', 1700000000 - 400 * 86400)]\<rparr>"

definition month_old_world :: world where
  "month_old_world = \<lparr>trace = [], media_cache = [],
     log_files = [(''bot.log.2023-10-12'', 1700000000 - 33 * 86400)]\<rparr>"

section \<open>The dispatcher returns normally\<close>

lemma process_update_dict:
  "process_update env (JObj kvs) w =
     (case dispatch env (JObj kvs) (emit (Log INFO ''Processing update keys=%s'' [AStrs (map fst kvs)]) w) of
        (Inl e, w') \<Rightarrow> (Inr (), emit (Log ERROR ''Unhandled exception in process_update: %s'' [AExn e]) w')
      | (Inr u, w') \<Rightarrow> (Inr (), w'))"
  by (simp add: process_update_def andthen_def lift_def logger_def try_except_def
      split: prod.splits sum.splits)

lemma process_update_not_dict:
  "py_keys update = Inl e \<Longrightarrow> process_update env update w = (Inl e, w)"
  by (simp add: process_update_def andthen_def lift_def)

text \<open>
  Claim C4. For every update that is a dictionary, whatever the outside world answers and
  whatever the state of the process, \<open>process_update\<close> returns normally: its result is
  never an exception. When the dispatch sequence raises \<open>e\<close>, the run ends with the log
  record of the top-level handler for \<open>e\<close>; otherwise it ends where the sequence ended.
\<close>

theorem process_update_never_raises:
  "fst (process_update env (JObj kvs) w) = Inr () \<and>
   snd (process_update env (JObj kvs) w) =
     (case dispatch env (JObj kvs) (emit (Log INFO ''Processing update keys=%s'' [AStrs (map fst kvs)]) w) of
        (Inl e, w') \<Rightarrow> emit (Log ERROR ''Unhandled exception in process_update: %s'' [AExn e]) w'
      | (Inr u, w') \<Rightarrow> w')"
  by (simp add: process_update_dict split: prod.splits sum.splits)

end
